theory Spec2Isabelle
  imports Main "HOL-Library.Word" "HOL-Library.Sublist" "HOL-Library.Multiset"
begin

unbundle bit_operations_syntax

section \<open>Go values used by the sentence framer\<close>

text \<open>
  A Go \<open>string\<close> is a sequence of bytes; \<open>len\<close> and indexing count bytes. It is modelled
  as \<open>string\<close> (a list of 8-bit \<open>char\<close>). Go's \<open>int\<close> indices are modelled as \<open>int\<close>:
  the only arithmetic on them is \<open>+ 1\<close> and \<open>+ 2\<close> on an index into an existing string, which
  cannot overflow 64 bits.

  A Go call either returns or panics. A function that can reach a slice or index expression
  returns an \<open>outcome\<close>, so that the run-time panic is a value of the model.
\<close>

datatype 'a outcome = Panic | Returns 'a

text \<open>The slice expression \<open>s[lo:hi]\<close>: Go panics unless \<open>0 \<le> lo \<le> hi \<le> len(s)\<close>.\<close>

definition slice :: "'a list \<Rightarrow> int \<Rightarrow> int \<Rightarrow> 'a list outcome" where
  "slice s lo hi =
     (if 0 \<le> lo \<and> lo \<le> hi \<and> hi \<le> int (length s)
      then Returns (take (nat (hi - lo)) (drop (nat lo) s))
      else Panic)"

text \<open>\<open>s[lo:]\<close> is \<open>s[lo:len(s)]\<close> and \<open>s[:hi]\<close> is \<open>s[0:hi]\<close>.\<close>

definition slice_from :: "'a list \<Rightarrow> int \<Rightarrow> 'a list outcome" where
  "slice_from s lo = slice s lo (int (length s))"

definition slice_to :: "'a list \<Rightarrow> int \<Rightarrow> 'a list outcome" where
  "slice_to s hi = slice s 0 hi"

text \<open>The index expression \<open>a[i]\<close>: Go panics unless \<open>0 \<le> i < len(a)\<close>.\<close>

definition index :: "'a list \<Rightarrow> int \<Rightarrow> 'a outcome" where
  "index a i = (if 0 \<le> i \<and> i < int (length a) then Returns (a ! nat i) else Panic)"

subsection \<open>Package \<open>strings\<close>\<close>

definition HasPrefix :: "string \<Rightarrow> string \<Rightarrow> bool" where
  "HasPrefix s p = prefix p s"

text \<open>\<open>strings.Index(s, substr)\<close>: the byte offset of the first occurrence, \<open>-1\<close> if none.\<close>

fun Index :: "string \<Rightarrow> string \<Rightarrow> int" where
  "Index [] substr = (if substr = [] then 0 else - 1)"
| "Index (c # cs) substr =
     (if prefix substr (c # cs) then 0
      else (let i = Index cs substr in if i = - 1 then - 1 else i + 1))"

text \<open>
  \<open>strings.IndexAny(s, chars)\<close> for a set \<open>chars\<close> of ASCII characters: the byte offset of the
  first byte of \<open>s\<close> that is one of them, \<open>-1\<close> if none. (A byte below 128 never occurs inside
  a multi-byte UTF-8 sequence, so Go's search by code point finds the same offset.)
\<close>

fun IndexAny :: "string \<Rightarrow> string \<Rightarrow> int" where
  "IndexAny [] chars = - 1"
| "IndexAny (c # cs) chars =
     (if c \<in> set chars then 0
      else (let i = IndexAny cs chars in if i = - 1 then - 1 else i + 1))"

text \<open>
  \<open>strings.Split(s, sep)\<close> for a separator of one byte, the only kind the framer passes:
  the pieces between the separators, in order; the empty string gives one empty piece.
\<close>

fun Split :: "string \<Rightarrow> char \<Rightarrow> string list" where
  "Split [] sep = [[]]"
| "Split (c # cs) sep =
     (if c = sep then [] # Split cs sep
      else (let r = Split cs sep in (c # hd r) # tl r))"

text \<open>
  \<open>strings.ToUpper\<close>, byte by byte. An ASCII byte maps to its upper-case form. A byte of 128
  or more that does not belong to a valid UTF-8 sequence is decoded by Go as U+FFFD and
  written back as the three bytes \<open>EF BF BD\<close>. The model is exact on ASCII strings and on
  strings of a single byte; the framer only passes a slice of width one.
\<close>

definition upperByte :: "char \<Rightarrow> string" where
  "upperByte c =
     (let n = (of_char c :: nat) in
      if n < 128 then [if 97 \<le> n \<and> n \<le> 122 then char_of (n - 32) else c]
      else [char_of (239::nat), char_of (191::nat), char_of (189::nat)])"

definition ToUpper :: "string \<Rightarrow> string" where
  "ToUpper s = concat (map upperByte s)"

subsection \<open>\<open>fmt.Sprintf("%02X", b)\<close> on a \<open>uint8\<close>\<close>

definition hexUpper :: "nat \<Rightarrow> char" where
  "hexUpper d = (if d < 10 then char_of (48 + d) else char_of (55 + d))"

definition Sprintf_02X :: "8 word \<Rightarrow> string" where
  "Sprintf_02X b = [hexUpper (unat b div 16), hexUpper (unat b mod 16)]"

section \<open>sentence.go\<close>

definition SentenceStart :: string where
  "SentenceStart = ''$''"

definition SentenceStartEncapsulated :: string where
  "SentenceStartEncapsulated = ''!''"

definition FieldSep :: char where
  "FieldSep = CHR '',''"

definition ChecksumSep :: string where
  "ChecksumSep = ''*''"

record BaseSentence =
  Talker :: string
  Type :: string
  Fields :: "string list"
  Checksum :: string
  Raw :: string

text \<open>The zero value \<open>BaseSentence{}\<close>: empty strings and a nil slice.\<close>

definition BaseSentence_zero :: BaseSentence where
  "BaseSentence_zero = \<lparr>Talker = [], Type = [], Fields = [], Checksum = [], Raw = []\<rparr>"

definition Prefix :: "BaseSentence \<Rightarrow> string" where
  "Prefix s = Talker s @ Type s"

definition DataType :: "BaseSentence \<Rightarrow> string" where
  "DataType s = Type s"

definition TalkerID :: "BaseSentence \<Rightarrow> string" where
  "TalkerID s = Talker s"

text \<open>
  The errors of the package, which Go builds with \<open>fmt.Errorf\<close>: one constructor per format
  string of \<^verbatim>\<open>sentence.go\<close>, carrying the arguments of the format. The last two are the
  errors of the field parser (a wrong sentence type: expected and actual type; a field that
  does not parse: its name and its text).
\<close>

datatype error =
    NoStartMarker
  | NoChecksumSep
  | ChecksumMismatch string string
  | PrefixNotSupported string
  | TypeMismatch string string
  | FieldParse string string

text \<open>\<open>xorChecksum\<close>: the loop \<open>checksum ^= s[i]\<close> over all bytes, from \<open>checksum = 0\<close>.\<close>

fun xorBytes :: "string \<Rightarrow> 8 word \<Rightarrow> 8 word" where
  "xorBytes [] checksum = checksum"
| "xorBytes (c # cs) checksum = xorBytes cs (checksum XOR of_char c)"

definition xorChecksum :: "string \<Rightarrow> string" where
  "xorChecksum s = Sprintf_02X (xorBytes s 0)"

text \<open>\<open>parsePrefix\<close>: the slices \<open>s[1:]\<close>, \<open>s[:2]\<close> and \<open>s[2:]\<close> can panic in Go.\<close>

definition parsePrefix :: "string \<Rightarrow> (string \<times> string) outcome" where
  "parsePrefix s =
     (if HasPrefix s ''P'' then
        (case slice_from s 1 of Panic \<Rightarrow> Panic | Returns r \<Rightarrow> Returns (''P'', r))
      else if length s < 2 then Returns (s, [])
      else
        (case slice_to s 2 of Panic \<Rightarrow> Panic
         | Returns t \<Rightarrow>
            (case slice_from s 2 of Panic \<Rightarrow> Panic | Returns r \<Rightarrow> Returns (t, r))))"

text \<open>
  \<open>ParseSentence\<close> returns the pair \<open>(BaseSentence, error)\<close>; a nil error is \<open>None\<close>. The four
  variables of the \<open>var\<close> block are initialised in the order they are written.
\<close>

definition ParseSentence :: "string \<Rightarrow> (BaseSentence \<times> error option) outcome" where
  "ParseSentence raw =
     (let startIndex = IndexAny raw (SentenceStart @ SentenceStartEncapsulated) in
      if startIndex = 0 then
        (let sumSepIndex = Index raw ChecksumSep in
         if sumSepIndex = - 1 then Returns (BaseSentence_zero, Some NoChecksumSep)
         else
           (case slice raw (startIndex + 1) sumSepIndex of
              Panic \<Rightarrow> Panic
            | Returns fieldsRaw \<Rightarrow>
               (let fields = Split fieldsRaw FieldSep in
                case slice raw (sumSepIndex + 1) (sumSepIndex + 2) of
                  Panic \<Rightarrow> Panic
                | Returns tail \<Rightarrow>
                   (let checksumRaw = ToUpper tail;
                        checksum = xorChecksum fieldsRaw in
                    if checksum = checksumRaw then
                      (case index fields 0 of
                         Panic \<Rightarrow> Panic
                       | Returns prefix0 \<Rightarrow>
                          (case parsePrefix prefix0 of
                             Panic \<Rightarrow> Panic
                           | Returns (talker, typ) \<Rightarrow>
                              (case slice_from fields 1 of
                                 Panic \<Rightarrow> Panic
                               | Returns rest \<Rightarrow>
                                  Returns (\<lparr>Talker = talker, Type = typ, Fields = rest,
                                            Checksum = checksumRaw, Raw = raw\<rparr>, None))))
                    else
                      Returns (BaseSentence_zero,
                               Some (ChecksumMismatch checksum checksumRaw))))))
      else Returns (BaseSentence_zero, Some NoStartMarker))"

text \<open>
  \<open>Parse\<close> returns the pair \<open>(Sentence, error)\<close>; a nil \<open>Sentence\<close> is \<open>None\<close>. The two
  \<open>switch s.Type\<close> statements call the constructors of the sentence types (\<open>newRMC\<close>,
  \<open>newGGA\<close>, ..., \<open>newVDMVDO\<close>), most of which, like the type constants of their \<open>case\<close>
  labels, are outside the given files. The two tables of cases are therefore parameters:
  \<open>conventional t = Some new\<close> when the first switch has \<open>case t: return new(s)\<close>, and
  \<open>encapsulated\<close> likewise for the second. A switch without a matching case falls through.
\<close>

type_synonym 'r decoder = "BaseSentence \<Rightarrow> ('r \<times> error option) outcome"

definition Parse ::
  "(string \<Rightarrow> 'r decoder option) \<Rightarrow> (string \<Rightarrow> 'r decoder option) \<Rightarrow> string \<Rightarrow>
   ('r option \<times> error option) outcome" where
  "Parse conventional encapsulated raw =
     (case ParseSentence raw of
        Panic \<Rightarrow> Panic
      | Returns (s, Some err) \<Rightarrow> Returns (None, Some err)
      | Returns (s, None) \<Rightarrow>
         (case (if HasPrefix (Raw s) SentenceStart then conventional (Type s) else None) of
            Some new \<Rightarrow>
              (case new s of Panic \<Rightarrow> Panic | Returns (m, e) \<Rightarrow> Returns (Some m, e))
          | None \<Rightarrow>
              (case (if HasPrefix (Raw s) SentenceStartEncapsulated
                     then encapsulated (Type s) else None) of
                 Some new \<Rightarrow>
                   (case new s of Panic \<Rightarrow> Panic | Returns (m, e) \<Rightarrow> Returns (Some m, e))
               | None \<Rightarrow> Returns (None, Some (PrefixNotSupported (Prefix s))))))"

section \<open>The field parser\<close>

text \<open>
  Modelled from the spec: the parser type that \<open>newZDA\<close> builds with \<open>NewParser\<close> is not
  among the given files. The spec describes it as an accumulator scoped to one decode
  call, holding the sentence and a single first-encountered error.
\<close>

record Parser =
  sentence :: BaseSentence
  err :: "error option"

text \<open>
  Modelled from the spec: \<open>NewParser\<close> is not among the given files. A new parser wraps
  the sentence and has no error recorded.
\<close>

definition NewParser :: "BaseSentence \<Rightarrow> Parser" where
  "NewParser s = \<lparr>sentence = s, err = None\<rparr>"

text \<open>
  Modelled from the spec: the recording of an error is not among the given files. The
  spec makes the error slot write-once (first error wins): an error is stored only when
  none is stored yet.
\<close>

definition SetErr :: "error \<Rightarrow> Parser \<Rightarrow> Parser" where
  "SetErr e p = (case err p of None \<Rightarrow> p\<lparr>err := Some e\<rparr> | Some first \<Rightarrow> p)"

text \<open>
  Modelled from the spec: \<open>AssertType\<close> is not among the given files. It compares the type
  code of the sentence with the expected one and records a type mismatch when they
  differ, without halting later calls.
\<close>

definition AssertType :: "string \<Rightarrow> Parser \<Rightarrow> Parser" where
  "AssertType expected p =
     (if Type (sentence p) = expected then p
      else SetErr (TypeMismatch expected (Type (sentence p))) p)"

text \<open>
  Modelled from the spec: the typed getters are not among the given files. A getter takes
  a zero-based field index and a field name; when the index is out of range, or the text
  at that index does not parse as the requested type, it records a field error naming the
  field and the offending text, and returns the default value of the type. The conversion
  of text to a value (which also decides what an empty field means for the type) is the
  parameter \<open>conv\<close>; an index out of range has no text, and the error carries the empty
  text.
\<close>

definition getField ::
  "(string \<Rightarrow> 'a option) \<Rightarrow> 'a \<Rightarrow> int \<Rightarrow> string \<Rightarrow> Parser \<Rightarrow> 'a \<times> Parser" where
  "getField conv dflt i name p =
     (if 0 \<le> i \<and> i < int (length (Fields (sentence p))) then
        (let text = Fields (sentence p) ! nat i in
         case conv text of
           Some v \<Rightarrow> (v, p)
         | None \<Rightarrow> (dflt, SetErr (FieldParse name text) p))
      else (dflt, SetErr (FieldParse name []) p))"

text \<open>
  Modelled from the spec: the getter \<open>Time\<close> is not among the given files, and neither is
  the type of its result, which is the type parameter \<open>'t\<close> with its zero value.
\<close>

definition Parser_Time ::
  "(string \<Rightarrow> 't option) \<Rightarrow> 't \<Rightarrow> int \<Rightarrow> string \<Rightarrow> Parser \<Rightarrow> 't \<times> Parser" where
  "Parser_Time parseTime zeroTime i name p = getField parseTime zeroTime i name p"

text \<open>
  Modelled from the spec: the getter \<open>Int64\<close> is not among the given files. Its result is
  a Go \<open>int64\<close>, with zero value 0.
\<close>

definition Parser_Int64 ::
  "(string \<Rightarrow> 64 word option) \<Rightarrow> int \<Rightarrow> string \<Rightarrow> Parser \<Rightarrow> 64 word \<times> Parser" where
  "Parser_Int64 parseInt64 i name p = getField parseInt64 0 i name p"

text \<open>
  Modelled from the spec: \<open>Err\<close> is not among the given files. It returns the first
  recorded error, or none.
\<close>

definition Err :: "Parser \<Rightarrow> error option" where
  "Err p = err p"

section \<open>zda.go\<close>

definition TypeZDA :: string where
  "TypeZDA = ''ZDA''"

record 't ZDA =
  Base :: BaseSentence
  Time :: 't
  Day :: "64 word"
  Month :: "64 word"
  Year :: "64 word"
  OffsetHours :: "64 word"
  OffsetMinutes :: "64 word"

text \<open>
  \<open>newZDA\<close>: Go evaluates the calls of the composite literal and of the \<open>return\<close>
  statement from left to right, so the parser is threaded through \<open>AssertType\<close>, the six
  getters in the order of the fields, and \<open>Err\<close> last.
\<close>

definition newZDA ::
  "(string \<Rightarrow> 't option) \<Rightarrow> 't \<Rightarrow> (string \<Rightarrow> 64 word option) \<Rightarrow> BaseSentence \<Rightarrow>
   't ZDA \<times> error option" where
  "newZDA parseTime zeroTime parseInt64 s =
     (let p = NewParser s;
          p = AssertType TypeZDA p;
          (time, p) = Parser_Time parseTime zeroTime 0 ''time'' p;
          (day, p) = Parser_Int64 parseInt64 1 ''day'' p;
          (month, p) = Parser_Int64 parseInt64 2 ''month'' p;
          (year, p) = Parser_Int64 parseInt64 3 ''year'' p;
          (offsetHours, p) = Parser_Int64 parseInt64 4 ''offset (hours)'' p;
          (offsetMinutes, p) = Parser_Int64 parseInt64 5 ''offset (minutes)'' p
      in (\<lparr>Base = s, Time = time, Day = day, Month = month, Year = year,
           OffsetHours = offsetHours, OffsetMinutes = offsetMinutes\<rparr>, Err p))"

section \<open>Sequences of accessor calls\<close>

text \<open>
  The vocabulary for statements about call order. A \<open>call\<close> names one accessor call of a
  decoder with its arguments; \<open>exec\<close> performs it on the parser with the functions above,
  and \<open>run\<close> performs a sequence of calls in order.
\<close>

datatype call = AssertTypeCall string | TimeCall int string | Int64Call int string

fun exec ::
  "(string \<Rightarrow> 't option) \<Rightarrow> 't \<Rightarrow> (string \<Rightarrow> 64 word option) \<Rightarrow> call \<Rightarrow>
   Parser \<Rightarrow> Parser" where
  "exec parseTime zeroTime parseInt64 (AssertTypeCall expected) p = AssertType expected p"
| "exec parseTime zeroTime parseInt64 (TimeCall i name) p =
     snd (Parser_Time parseTime zeroTime i name p)"
| "exec parseTime zeroTime parseInt64 (Int64Call i name) p =
     snd (Parser_Int64 parseInt64 i name p)"

fun run ::
  "(string \<Rightarrow> 't option) \<Rightarrow> 't \<Rightarrow> (string \<Rightarrow> 64 word option) \<Rightarrow> call list \<Rightarrow>
   Parser \<Rightarrow> Parser" where
  "run parseTime zeroTime parseInt64 [] p = p"
| "run parseTime zeroTime parseInt64 (c # cs) p =
     run parseTime zeroTime parseInt64 cs (exec parseTime zeroTime parseInt64 c p)"

text \<open>
  Whether a call fails is a matter of the sentence alone, not of the parser's error slot:
  \<open>failure\<close> is the error the call has to report on the sentence \<open>s\<close>, if any, and
  \<open>first_failure\<close> is the error of the first failing call of a sequence, in call order.
\<close>

definition fieldFailure ::
  "(string \<Rightarrow> 'a option) \<Rightarrow> int \<Rightarrow> string \<Rightarrow> BaseSentence \<Rightarrow> error option" where
  "fieldFailure conv i name s =
     (if 0 \<le> i \<and> i < int (length (Fields s)) then
        (case conv (Fields s ! nat i) of
           Some v \<Rightarrow> None
         | None \<Rightarrow> Some (FieldParse name (Fields s ! nat i)))
      else Some (FieldParse name []))"

fun failure ::
  "(string \<Rightarrow> 't option) \<Rightarrow> (string \<Rightarrow> 64 word option) \<Rightarrow> BaseSentence \<Rightarrow> call \<Rightarrow>
   error option" where
  "failure parseTime parseInt64 s (AssertTypeCall expected) =
     (if Type s = expected then None else Some (TypeMismatch expected (Type s)))"
| "failure parseTime parseInt64 s (TimeCall i name) = fieldFailure parseTime i name s"
| "failure parseTime parseInt64 s (Int64Call i name) = fieldFailure parseInt64 i name s"

fun first_failure :: "('c \<Rightarrow> error option) \<Rightarrow> 'c list \<Rightarrow> error option" where
  "first_failure f [] = None"
| "first_failure f (c # cs) =
     (case f c of Some e \<Rightarrow> Some e | None \<Rightarrow> first_failure f cs)"

section \<open>Facts about the Go primitives\<close>

lemma IndexAny_ge: "- 1 \<le> IndexAny s chars"
  by (induction s) (auto simp: Let_def)

lemma IndexAny_zero_iff:
  "IndexAny s chars = 0 \<longleftrightarrow> (\<exists>c cs. s = c # cs \<and> c \<in> set chars)"
proof (cases s)
  case Nil
  then show ?thesis by simp
next
  case (Cons c cs)
  have "- 1 \<le> IndexAny cs chars" by (rule IndexAny_ge)
  then show ?thesis using Cons by (auto simp: Let_def)
qed

lemma length_xorChecksum: "length (xorChecksum s) = 2"
  by (simp add: xorChecksum_def Sprintf_02X_def)

lemma length_upperByte: "length (upperByte c) = 1 \<or> length (upperByte c) = 3"
  by (simp add: upperByte_def Let_def)

lemma slice_width_one: "slice s lo (lo + 1) = Returns t \<Longrightarrow> \<exists>c. t = [c]"
proof -
  assume a: "slice s lo (lo + 1) = Returns t"
  then have b: "0 \<le> lo" "lo + 1 \<le> int (length s)" and t: "t = take 1 (drop (nat lo) s)"
    by (auto simp: slice_def split: if_splits)
  from b have "nat lo < length s" by linarith
  then have "drop (nat lo) s \<noteq> []" by simp
  then obtain c cs where "drop (nat lo) s = c # cs" by (cases "drop (nat lo) s") auto
  with t show ?thesis by simp
qed

section \<open>The checksum comparison of \<open>ParseSentence\<close>\<close>

text \<open>
  \<open>xorChecksum\<close> always has two characters, while \<open>checksumRaw\<close> is the upper-case form of
  the slice \<open>raw[sumSepIndex+1:sumSepIndex+2]\<close>, which holds one byte. The two are never
  equal, so the comparison of \<open>ParseSentence\<close> fails whenever it is reached.
\<close>

lemma checksum_never_matches:
  assumes "slice raw (i + 1) (i + 2) = Returns tail"
  shows "xorChecksum fieldsRaw \<noteq> ToUpper tail"
proof -
  have "slice raw (i + 1) ((i + 1) + 1) = Returns tail" using assms by (simp add: add.assoc)
  then obtain c where "tail = [c]" using slice_width_one by blast
  then have "length (ToUpper tail) = 1 \<or> length (ToUpper tail) = 3"
    using length_upperByte [of c] by (simp add: ToUpper_def)
  then show ?thesis using length_xorChecksum [of fieldsRaw] by auto
qed

lemma ParseSentence_results:
  "ParseSentence raw = Returns (BaseSentence_zero, Some NoStartMarker) \<or>
   ParseSentence raw = Returns (BaseSentence_zero, Some NoChecksumSep) \<or>
   ParseSentence raw = Panic \<or>
   (\<exists>a b. ParseSentence raw = Returns (BaseSentence_zero, Some (ChecksumMismatch a b)))"
proof (cases "IndexAny raw (SentenceStart @ SentenceStartEncapsulated) = 0")
  case False
  then show ?thesis by (simp add: ParseSentence_def Let_def)
next
  case st: True
  show ?thesis
  proof (cases "Index raw ChecksumSep = - 1")
    case True
    then show ?thesis using st by (simp add: ParseSentence_def Let_def)
  next
    case sp: False
    show ?thesis
    proof (cases "slice raw (0 + 1) (Index raw ChecksumSep)")
      case Panic
      then show ?thesis using st sp by (simp add: ParseSentence_def Let_def)
    next
      case fr: (Returns fieldsRaw)
      show ?thesis
      proof (cases "slice raw (Index raw ChecksumSep + 1) (Index raw ChecksumSep + 2)")
        case Panic
        then show ?thesis using st sp fr by (simp add: ParseSentence_def Let_def)
      next
        case (Returns tail)
        then have "xorChecksum fieldsRaw \<noteq> ToUpper tail"
          by (rule checksum_never_matches)
        then show ?thesis using st sp fr Returns by (simp add: ParseSentence_def Let_def)
      qed
    qed
  qed
qed

lemma ParseSentence_never_succeeds: "ParseSentence raw \<noteq> Returns (s, None)"
  using ParseSentence_results [of raw] by auto

section \<open>The checksum is a function of the bytes as a multiset\<close>

lemma xorBytes_fold: "xorBytes s acc = fold (\<lambda>c a. a XOR of_char c) s acc"
  by (induction s arbitrary: acc) auto

lemma xor_step_commute:
  "(\<lambda>a::8 word. a XOR of_char x) \<circ> (\<lambda>a. a XOR of_char y) =
   (\<lambda>a. a XOR of_char y) \<circ> (\<lambda>a. a XOR of_char x)"
proof (rule ext)
  fix a :: "8 word"
  have "(a XOR of_char y) XOR of_char x = (a XOR of_char x) XOR of_char y"
    by (metis xor.assoc xor.commute)
  then show "((\<lambda>a::8 word. a XOR of_char x) \<circ> (\<lambda>a. a XOR of_char y)) a =
             ((\<lambda>a. a XOR of_char y) \<circ> (\<lambda>a. a XOR of_char x)) a"
    by simp
qed

lemma xorBytes_mset: "mset a = mset b \<Longrightarrow> xorBytes a acc = xorBytes b acc"
proof -
  assume m: "mset a = mset b"
  have "fold (\<lambda>c (a::8 word). a XOR of_char c) a = fold (\<lambda>c a. a XOR of_char c) b"
    using xor_step_commute m by (rule fold_multiset_equiv)
  then show ?thesis by (simp add: xorBytes_fold)
qed

section \<open>The error slot of the field parser\<close>

lemma Err_SetErr_kept: "Err p = Some e \<Longrightarrow> SetErr e' p = p"
  by (simp add: Err_def SetErr_def)

lemma Err_SetErr_fresh: "Err p = None \<Longrightarrow> Err (SetErr e p) = Some e"
  by (simp add: Err_def SetErr_def)

lemma snd_getField:
  "snd (getField conv dflt i name p) =
     (case fieldFailure conv i name (sentence p) of None \<Rightarrow> p | Some e \<Rightarrow> SetErr e p)"
  by (simp add: getField_def fieldFailure_def Let_def split: option.splits)

lemma exec_failure:
  "exec pT zT pI c p =
     (case failure pT pI (sentence p) c of None \<Rightarrow> p | Some e \<Rightarrow> SetErr e p)"
  by (cases c) (simp_all add: AssertType_def Parser_Time_def Parser_Int64_def snd_getField)

lemma exec_kept: "Err p = Some e \<Longrightarrow> exec pT zT pI c p = p"
  by (simp add: exec_failure Err_SetErr_kept split: option.splits)

lemma run_kept: "Err p = Some e \<Longrightarrow> run pT zT pI cs p = p"
  by (induction cs) (simp_all add: exec_kept)

lemma run_first:
  "Err p = None \<Longrightarrow>
   Err (run pT zT pI cs p) = first_failure (failure pT pI (sentence p)) cs"
proof (induction cs arbitrary: p)
  case Nil
  then show ?case by simp
next
  case (Cons c cs)
  show ?case
  proof (cases "failure pT pI (sentence p) c")
    case None
    then have "exec pT zT pI c p = p" by (simp add: exec_failure)
    then show ?thesis using Cons None by simp
  next
    case (Some e)
    then have x: "exec pT zT pI c p = SetErr e p" by (simp add: exec_failure)
    have y: "Err (SetErr e p) = Some e" using Cons.prems by (rule Err_SetErr_fresh)
    then have "run pT zT pI cs (SetErr e p) = SetErr e p" by (rule run_kept)
    then show ?thesis using x y Some by simp
  qed
qed

lemma newZDA_run:
  "snd (newZDA pT zT pI s) =
     Err (run pT zT pI
            [AssertTypeCall TypeZDA, TimeCall 0 ''time'', Int64Call 1 ''day'',
             Int64Call 2 ''month'', Int64Call 3 ''year'', Int64Call 4 ''offset (hours)'',
             Int64Call 5 ''offset (minutes)''] (NewParser s))"
  by (simp add: newZDA_def Let_def split_beta)

section \<open>\<open>Parse\<close> never reaches its dispatch\<close>

lemma Parse_never_dispatches:
  "Parse conventional encapsulated raw = Panic \<or>
   (\<exists>e. Parse conventional encapsulated raw = Returns (None, Some e) \<and>
        (e = NoStartMarker \<or> e = NoChecksumSep \<or> (\<exists>a b. e = ChecksumMismatch a b)))"
  using ParseSentence_results [of raw] by (auto simp: Parse_def)

section \<open>Claims\<close>

text \<open>
  C1 (code defect): the documented example sentence should decode to an RMC record with
  talker \<open>GP\<close>, twelve data fields, checksum \<open>70\<close> and no error. \<open>ParseSentence\<close> compares
  the computed checksum \<open>70\<close> with the single character \<open>7\<close> that its slice of width one
  holds, so \<open>Parse\<close> returns a checksum mismatch and no record, whatever the decoders are.
\<close>

theorem Parse_documented_example_fails:
  "Parse conventional encapsulated
     ''$GPRMC,220516,A,5133.82,N,00042.24,W,173.8,231.8,130694,004.2,W*70'' =
   Returns (None, Some (ChecksumMismatch ''70'' ''7''))"
proof -
  have "ParseSentence ''$GPRMC,220516,A,5133.82,N,00042.24,W,173.8,231.8,130694,004.2,W*70'' =
        Returns (BaseSentence_zero, Some (ChecksumMismatch ''70'' ''7''))"
    by code_simp
  then show ?thesis by (simp add: Parse_def)
qed

text \<open>
  C2 (code defect): the computed checksum should be compared with the two characters
  after the separator, in upper case, and parsing should pass the check exactly when they
  are equal. For \<open>$GPZZZ*4d\<close> the computed checksum is \<open>4D\<close> and the two declared
  characters in upper case are \<open>4D\<close>, yet \<open>ParseSentence\<close> reports a mismatch against the
  single character \<open>4\<close>.
\<close>

theorem ParseSentence_rejects_equal_checksum:
  "xorChecksum ''GPZZZ'' = ''4D'' \<and> ToUpper ''4d'' = ''4D'' \<and>
   ParseSentence ''$GPZZZ*4d'' =
     Returns (BaseSentence_zero, Some (ChecksumMismatch ''4D'' ''4''))"
proof -
  have "xorChecksum ''GPZZZ'' = ''4D''" by code_simp
  moreover have "ToUpper ''4d'' = ''4D''" by code_simp
  moreover have "ParseSentence ''$GPZZZ*4d'' =
                 Returns (BaseSentence_zero, Some (ChecksumMismatch ''4D'' ''4''))"
    by code_simp
  ultimately show ?thesis by blast
qed

text \<open>
  C3 (code defect): an input whose checksum separator \<open>*\<close> is followed by fewer than two
  characters should give an error value, never a fault. When \<open>*\<close> is the last character of
  a sentence that starts with a marker, the slice \<open>raw[sumSepIndex+1:sumSepIndex+2]\<close> is out
  of range and \<open>ParseSentence\<close> panics.
\<close>

theorem ParseSentence_separator_last_panics: "ParseSentence ''$GP*'' = Panic"
  by code_simp

text \<open>
  C4 (as amended): the XOR checksum is a function of its input, and it does not depend on
  the order of the bytes: exchanging the bytes at any two positions of \<open>b\<close> leaves the
  checksum unchanged.
\<close>

theorem xorChecksum_swap_invariant:
  "i < length b \<Longrightarrow> j < length b \<Longrightarrow>
   xorChecksum (b[i := b ! j, j := b ! i]) = xorChecksum b"
proof -
  assume a: "i < length b" "j < length b"
  have "mset (b[i := b ! j, j := b ! i]) = mset b" using a by (simp add: mset_swap)
  then have "xorBytes (b[i := b ! j, j := b ! i]) 0 = xorBytes b 0"
    by (rule xorBytes_mset)
  then show ?thesis by (simp add: xorChecksum_def)
qed

theorem xorChecksum_swap_invariant_witness:
  "(0::nat) < length ''GPRMC'' \<and> (4::nat) < length ''GPRMC'' \<and>
   xorChecksum ''CPRMG'' = xorChecksum ''GPRMC''"
proof -
  have h0: "(0::nat) < length ''GPRMC''" and h4: "(4::nat) < length ''GPRMC''" by simp_all
  have "xorChecksum (''GPRMC''[0 := ''GPRMC'' ! 4, 4 := ''GPRMC'' ! 0]) = xorChecksum ''GPRMC''"
    using h0 h4 by (rule xorChecksum_swap_invariant)
  then show ?thesis by simp
qed

text \<open>
  C4 as stated fails: the bytes \<open>A\<close> and \<open>B\<close> at positions 0 and 1 of \<open>AB\<close> differ, and
  exchanging them gives the same checksum.
\<close>

theorem xorChecksum_swap_counterexample:
  "''AB'' ! 0 \<noteq> ''AB'' ! 1 \<and>
   xorChecksum (''AB''[0 := ''AB'' ! 1, 1 := ''AB'' ! 0]) = xorChecksum ''AB''"
  by code_simp

text \<open>
  C5: within one decode call the parser reports the error of the first accessor call that
  fails, in call order, and an error once recorded is never overwritten or cleared by
  later calls. For every sequence of accessor calls run on a new parser, \<open>Err\<close> is the
  failure of the first failing call; from a parser that already holds an error, every
  sequence of calls leaves that error in place; and the error \<open>newZDA\<close> returns is the
  failure of the first failing call among its type assertion and six getters.
\<close>

theorem first_error_wins:
  "Err (run pT zT pI cs (NewParser s)) = first_failure (failure pT pI s) cs \<and>
   (Err p = Some e \<longrightarrow> Err (run pT zT pI cs p) = Some e) \<and>
   snd (newZDA pT zT pI s) =
     first_failure (failure pT pI s)
       [AssertTypeCall TypeZDA, TimeCall 0 ''time'', Int64Call 1 ''day'',
        Int64Call 2 ''month'', Int64Call 3 ''year'', Int64Call 4 ''offset (hours)'',
        Int64Call 5 ''offset (minutes)'']"
proof -
  have fresh: "Err (NewParser s) = None" and sent: "sentence (NewParser s) = s"
    by (simp_all add: Err_def NewParser_def)
  have a: "Err (run pT zT pI cs (NewParser s)) = first_failure (failure pT pI s) cs" for cs
    using run_first [OF fresh, of pT zT pI cs] by (simp add: sent)
  have b: "Err p = Some e \<longrightarrow> Err (run pT zT pI cs p) = Some e"
    by (simp add: run_kept)
  show ?thesis using a b by (simp only: newZDA_run simp_thms)
qed

text \<open>
  A ZDA sentence whose fields \<open>day\<close> and \<open>month\<close> are both malformed and whose last field
  is missing: \<open>newZDA\<close> reports the \<open>day\<close> field. A parser that already holds a type
  mismatch keeps it through two failing getters.
\<close>

theorem first_error_wins_witness:
  "Err (SetErr (TypeMismatch ''ZDA'' ''RMC'')
          (NewParser \<lparr>Talker = ''GP'', Type = ''ZDA'',
                      Fields = [''160012.71'', ''xx'', ''yy'', ''2004'', ''-1''],
                      Checksum = ''00'', Raw = ''$GPZDA''\<rparr>)) =
     Some (TypeMismatch ''ZDA'' ''RMC'') \<and>
   Err (run (\<lambda>t. Some t) [] (\<lambda>t. if t = ''2004'' then Some 2004 else None)
          [Int64Call 1 ''day'', Int64Call 2 ''month'']
          (SetErr (TypeMismatch ''ZDA'' ''RMC'')
             (NewParser \<lparr>Talker = ''GP'', Type = ''ZDA'',
                         Fields = [''160012.71'', ''xx'', ''yy'', ''2004'', ''-1''],
                         Checksum = ''00'', Raw = ''$GPZDA''\<rparr>))) =
     Some (TypeMismatch ''ZDA'' ''RMC'') \<and>
   snd (newZDA (\<lambda>t. Some t) [] (\<lambda>t. if t = ''2004'' then Some 2004 else None)
          \<lparr>Talker = ''GP'', Type = ''ZDA'',
           Fields = [''160012.71'', ''xx'', ''yy'', ''2004'', ''-1''],
           Checksum = ''00'', Raw = ''$GPZDA''\<rparr>) =
     Some (FieldParse ''day'' ''xx'')"
proof -
  let ?s = "\<lparr>Talker = ''GP'', Type = ''ZDA'',
             Fields = [''160012.71'', ''xx'', ''yy'', ''2004'', ''-1''],
             Checksum = ''00'', Raw = ''$GPZDA''\<rparr>"
  let ?pT = "\<lambda>t::string. Some t"
  let ?pI = "\<lambda>t. if t = ''2004'' then Some (2004 :: 64 word) else None"
  let ?p = "SetErr (TypeMismatch ''ZDA'' ''RMC'') (NewParser ?s)"
  have h: "Err ?p = Some (TypeMismatch ''ZDA'' ''RMC'')"
    by (simp add: Err_def SetErr_def NewParser_def)
  note t = first_error_wins [of ?pT "[]" ?pI "[Int64Call 1 ''day'', Int64Call 2 ''month'']" ?s ?p
                               "TypeMismatch ''ZDA'' ''RMC''"]
  from t h have kept:
    "Err (run ?pT [] ?pI [Int64Call 1 ''day'', Int64Call 2 ''month''] ?p) =
       Some (TypeMismatch ''ZDA'' ''RMC'')"
    by blast
  from t have
    "snd (newZDA ?pT [] ?pI ?s) =
       first_failure (failure ?pT ?pI ?s)
         [AssertTypeCall TypeZDA, TimeCall 0 ''time'', Int64Call 1 ''day'',
          Int64Call 2 ''month'', Int64Call 3 ''year'', Int64Call 4 ''offset (hours)'',
          Int64Call 5 ''offset (minutes)'']"
    by blast
  then have "snd (newZDA ?pT [] ?pI ?s) = Some (FieldParse ''day'' ''xx'')"
    by (simp add: fieldFailure_def TypeZDA_def)
  with h kept show ?thesis by blast
qed

text \<open>
  C6 (code defect): a well-framed sentence with a valid checksum and a type code that has
  no decoder should give the unsupported-sentence error naming the prefix \<open>GPZZZ\<close>. The
  checksum of \<open>GPZZZ,1\<close> is \<open>50\<close>, but \<open>ParseSentence\<close> compares it with the single
  character \<open>5\<close>, so \<open>Parse\<close> returns a checksum mismatch before any dispatch, whatever the
  tables of decoders are.
\<close>

theorem Parse_unsupported_type_fails_checksum:
  "xorChecksum ''GPZZZ,1'' = ''50'' \<and>
   Parse conventional encapsulated ''$GPZZZ,1*50'' =
     Returns (None, Some (ChecksumMismatch ''50'' ''5''))"
proof -
  have "ParseSentence ''$GPZZZ,1*50'' =
        Returns (BaseSentence_zero, Some (ChecksumMismatch ''50'' ''5''))"
    by code_simp
  moreover have "xorChecksum ''GPZZZ,1'' = ''50''" by code_simp
  ultimately show ?thesis by (simp add: Parse_def)
qed

text \<open>
  C7: \<open>parsePrefix\<close> never fails. A prefix that starts with \<open>P\<close> gives talker \<open>P\<close> and the
  rest as type, even when the rest is empty; any other prefix shorter than two characters
  gives itself as talker and the empty type; any other prefix gives its first two
  characters as talker and the rest as type.
\<close>

theorem parsePrefix_total:
  "(HasPrefix s ''P'' \<longrightarrow> parsePrefix s = Returns (''P'', drop 1 s)) \<and>
   (\<not> HasPrefix s ''P'' \<and> length s < 2 \<longrightarrow> parsePrefix s = Returns (s, [])) \<and>
   (\<not> HasPrefix s ''P'' \<and> \<not> length s < 2 \<longrightarrow>
      parsePrefix s = Returns (take 2 s, drop 2 s))"
proof (intro conjI impI)
  assume "HasPrefix s ''P''"
  then show "parsePrefix s = Returns (''P'', drop 1 s)"
    by (cases s) (auto simp: parsePrefix_def HasPrefix_def slice_from_def slice_def)
next
  assume "\<not> HasPrefix s ''P'' \<and> length s < 2"
  then show "parsePrefix s = Returns (s, [])"
    by (simp add: parsePrefix_def)
next
  assume "\<not> HasPrefix s ''P'' \<and> \<not> length s < 2"
  then show "parsePrefix s = Returns (take 2 s, drop 2 s)"
    by (simp add: parsePrefix_def slice_from_def slice_to_def slice_def)
qed

theorem parsePrefix_total_witness:
  "HasPrefix ''PGRME'' ''P'' \<and> parsePrefix ''PGRME'' = Returns (''P'', ''GRME'') \<and>
   HasPrefix ''P'' ''P'' \<and> parsePrefix ''P'' = Returns (''P'', []) \<and>
   (\<not> HasPrefix ''G'' ''P'' \<and> length ''G'' < 2) \<and> parsePrefix ''G'' = Returns (''G'', []) \<and>
   (\<not> HasPrefix ''GPRMC'' ''P'' \<and> \<not> length ''GPRMC'' < 2) \<and>
   parsePrefix ''GPRMC'' = Returns (''GP'', ''RMC'')"
proof -
  have h1: "HasPrefix ''PGRME'' ''P''" and h2: "HasPrefix ''P'' ''P''"
    and h3: "\<not> HasPrefix ''G'' ''P'' \<and> length ''G'' < 2"
    and h4: "\<not> HasPrefix ''GPRMC'' ''P'' \<and> \<not> length ''GPRMC'' < 2"
    by (simp_all add: HasPrefix_def)
  have "parsePrefix ''PGRME'' = Returns (''P'', drop 1 ''PGRME'')"
    using parsePrefix_total [of "''PGRME''"] h1 by blast
  moreover have "parsePrefix ''P'' = Returns (''P'', drop 1 ''P'')"
    using parsePrefix_total [of "''P''"] h2 by blast
  moreover have "parsePrefix ''G'' = Returns (''G'', [])"
    using parsePrefix_total [of "''G''"] h3 by blast
  moreover have "parsePrefix ''GPRMC'' = Returns (take 2 ''GPRMC'', drop 2 ''GPRMC'')"
    using parsePrefix_total [of "''GPRMC''"] h4 by blast
  ultimately show ?thesis using h1 h2 h3 h4 by simp
qed

text \<open>
  C8: \<open>ParseSentence\<close> fails with the framing error of the start marker unless the input
  has \<open>$\<close> or \<open>!\<close> at offset 0; a marker at a later position does not help.
\<close>

theorem ParseSentence_marker_at_offset_0:
  "\<not> HasPrefix raw SentenceStart \<Longrightarrow> \<not> HasPrefix raw SentenceStartEncapsulated \<Longrightarrow>
   ParseSentence raw = Returns (BaseSentence_zero, Some NoStartMarker)"
proof -
  assume a: "\<not> HasPrefix raw SentenceStart" "\<not> HasPrefix raw SentenceStartEncapsulated"
  have "IndexAny raw (SentenceStart @ SentenceStartEncapsulated) \<noteq> 0"
    using a
    by (auto simp: IndexAny_zero_iff HasPrefix_def SentenceStart_def
                   SentenceStartEncapsulated_def)
  then show ?thesis by (simp add: ParseSentence_def Let_def)
qed

theorem ParseSentence_marker_at_offset_0_witness:
  "\<not> HasPrefix ''x$GPRMC,220516,A,5133.82,N,00042.24,W,173.8,231.8,130694,004.2,W*70''
       SentenceStart \<and>
   \<not> HasPrefix ''x$GPRMC,220516,A,5133.82,N,00042.24,W,173.8,231.8,130694,004.2,W*70''
       SentenceStartEncapsulated \<and>
   ParseSentence ''x$GPRMC,220516,A,5133.82,N,00042.24,W,173.8,231.8,130694,004.2,W*70'' =
     Returns (BaseSentence_zero, Some NoStartMarker)"
proof -
  let ?raw = "''x$GPRMC,220516,A,5133.82,N,00042.24,W,173.8,231.8,130694,004.2,W*70''"
  have h1: "\<not> HasPrefix ?raw SentenceStart"
    and h2: "\<not> HasPrefix ?raw SentenceStartEncapsulated"
    by (simp_all add: HasPrefix_def SentenceStart_def SentenceStartEncapsulated_def)
  from h1 h2 have "ParseSentence ?raw = Returns (BaseSentence_zero, Some NoStartMarker)"
    by (rule ParseSentence_marker_at_offset_0)
  with h1 h2 show ?thesis by blast
qed

text \<open>
  C9 (code defect): a sentence whose checksum separator comes before any comma should
  parse, given a valid checksum, with zero data fields. The text \<open>GPRMC\<close> splits into the
  prefix alone and has checksum \<open>4B\<close>, but \<open>ParseSentence\<close> reports a mismatch against the
  single character \<open>4\<close>.
\<close>

theorem ParseSentence_no_fields_fails_checksum:
  "Split ''GPRMC'' FieldSep = [''GPRMC''] \<and> xorChecksum ''GPRMC'' = ''4B'' \<and>
   ParseSentence ''$GPRMC*4B'' =
     Returns (BaseSentence_zero, Some (ChecksumMismatch ''4B'' ''4''))"
proof -
  have "Split ''GPRMC'' FieldSep = [''GPRMC'']" by code_simp
  moreover have "xorChecksum ''GPRMC'' = ''4B''" by code_simp
  moreover have "ParseSentence ''$GPRMC*4B'' =
                 Returns (BaseSentence_zero, Some (ChecksumMismatch ''4B'' ''4''))"
    by code_simp
  ultimately show ?thesis by blast
qed

text \<open>
  C10: whenever \<open>ParseSentence\<close> returns an error, the \<open>BaseSentence\<close> returned with it is
  the zero value: empty talker, type, checksum and raw text, and no fields.
\<close>

theorem ParseSentence_error_zero:
  "ParseSentence raw = Returns (s, Some e) \<Longrightarrow>
   s = BaseSentence_zero \<and> Talker s = [] \<and> Type s = [] \<and> Fields s = [] \<and>
   Checksum s = [] \<and> Raw s = []"
proof -
  assume a: "ParseSentence raw = Returns (s, Some e)"
  then have "s = BaseSentence_zero"
    using ParseSentence_results [of raw] by auto
  then show ?thesis by (simp add: BaseSentence_zero_def)
qed

theorem ParseSentence_error_zero_witness:
  "ParseSentence ''$GPRMC,220516'' = Returns (BaseSentence_zero, Some NoChecksumSep) \<and>
   Talker BaseSentence_zero = [] \<and> Raw BaseSentence_zero = []"
proof -
  have h: "ParseSentence ''$GPRMC,220516'' = Returns (BaseSentence_zero, Some NoChecksumSep)"
    by code_simp
  from ParseSentence_error_zero [OF h] show ?thesis using h by simp
qed

end
